theory Spec2Isabelle
  imports Main
begin

section \<open>JavaScript values\<close>

text \<open>
  The values that \<^verbatim>\<open>yaml.load\<close> can hand back and that end up in the settings object.
  A string is its sequence of code units. Numbers are kept as integers plus \<^verbatim>\<open>NaN\<close>:
  the loader only ever asks whether a number is falsy.
  An object is its list of own enumerable properties in insertion order, with distinct keys.
\<close>

datatype js_value =
    JSUndefined
  | JSNull
  | JSBoolean bool
  | JSNumber int
  | JSNaN
  | JSString string
  | JSArray "js_value list"
  | JSObject "(string \<times> js_value) list"

text \<open>\<^verbatim>\<open>identity\<close> used as a predicate, and the left operand of \<^verbatim>\<open>||\<close>: JavaScript truthiness.\<close>

fun truthy :: "js_value \<Rightarrow> bool" where
  "truthy JSUndefined = False"
| "truthy JSNull = False"
| "truthy (JSBoolean b) = b"
| "truthy (JSNumber n) = (n \<noteq> 0)"
| "truthy JSNaN = False"
| "truthy (JSString s) = (s \<noteq> [])"
| "truthy (JSArray xs) = True"
| "truthy (JSObject kvs) = True"

text \<open>\<^verbatim>\<open>a || b\<close>\<close>

definition js_or :: "js_value \<Rightarrow> js_value \<Rightarrow> js_value" where
  "js_or a b = (if truthy a then a else b)"

type_synonym settings = "string \<rightharpoonup> js_value"

text \<open>Property names of array and string indices: the decimal numeral of the index.\<close>

fun decimal :: "nat \<Rightarrow> string" where
  "decimal n = (if n < 10 then [''0123456789'' ! n]
                else decimal (n div 10) @ [''0123456789'' ! (n mod 10)])"

declare decimal.simps [simp del]

definition index_keys :: "nat \<Rightarrow> string list" where
  "index_keys n = map decimal [0..<n]"

text \<open>
  The properties that object spread \<^verbatim>\<open>{ ...v }\<close> copies: the own enumerable properties of
  the value. \<^verbatim>\<open>undefined\<close>, \<^verbatim>\<open>null\<close>, booleans and numbers contribute none, a string its
  indexed code units, an array its indexed elements.
\<close>

fun own_props :: "js_value \<Rightarrow> settings" where
  "own_props (JSObject kvs) = map_of kvs"
| "own_props (JSArray xs) = map_of (zip (index_keys (length xs)) xs)"
| "own_props (JSString s) = map_of (zip (index_keys (length s)) (map (\<lambda>c. JSString [c]) s))"
| "own_props v = Map.empty"

text \<open>\<^verbatim>\<open>pickBy(object, predicate)\<close> of lodash: the properties whose value satisfies the predicate.\<close>

definition pickBy :: "(string \<times> js_value) list \<Rightarrow> (js_value \<Rightarrow> bool) \<Rightarrow> (string \<times> js_value) list" where
  "pickBy obj predicate = filter (\<lambda>kv. predicate (snd kv)) obj"

section \<open>File system and process environment\<close>

datatype fs_entry = File string | Directory

type_synonym file_system = "string \<rightharpoonup> fs_entry"

type_synonym process_env = "string \<rightharpoonup> string"

datatype error =
    ENOENT string
  | EISDIR string
  | YAMLException string

definition existsSync :: "file_system \<Rightarrow> string \<Rightarrow> bool" where
  "existsSync fs p = (fs p \<noteq> None)"

definition readFileSync :: "file_system \<Rightarrow> string \<Rightarrow> error + string" where
  "readFileSync fs p =
     (case fs p of
        None \<Rightarrow> Inl (ENOENT p)
      | Some Directory \<Rightarrow> Inl (EISDIR p)
      | Some (File content) \<Rightarrow> Inr content)"

text \<open>\<^verbatim>\<open>process.env.NAME\<close>: the string when the variable is set, \<^verbatim>\<open>undefined\<close> otherwise.\<close>

definition process_env_get :: "process_env \<Rightarrow> string \<Rightarrow> js_value" where
  "process_env_get env name = (case env name of None \<Rightarrow> JSUndefined | Some s \<Rightarrow> JSString s)"

section \<open>The config loader\<close>

text \<open>
  \<^verbatim>\<open>path.join(kibanaConfigDir, name)\<close>; the directory itself is resolved from the location of
  the module and is a parameter here.
\<close>

definition kibanaDevConfig :: "string \<Rightarrow> string" where
  "kibanaDevConfig kibanaConfigDir = kibanaConfigDir @ ''/kibana.dev.yml''"

definition kibanaConfig :: "string \<Rightarrow> string" where
  "kibanaConfig kibanaConfigDir = kibanaConfigDir @ ''/kibana.yml''"

definition cliEsCredentials :: "process_env \<Rightarrow> (string \<times> js_value) list" where
  "cliEsCredentials env =
     pickBy
       [(''elasticsearch.username'', process_env_get env ''ELASTICSEARCH_USERNAME''),
        (''elasticsearch.password'', process_env_get env ''ELASTICSEARCH_PASSWORD''),
        (''elasticsearch.hosts'', process_env_get env ''ELASTICSEARCH_HOST'')]
       truthy"

definition defaults :: "(string \<times> js_value) list" where
  "defaults =
     [(''xpack.apm.indices.transaction'', JSString ''traces-apm*,apm-*,traces-*.otel-*''),
      (''xpack.apm.indices.metric'', JSString ''metrics-apm*,apm-*,metrics-*.otel-*''),
      (''xpack.apm.indices.error'', JSString ''logs-apm*,apm-*,logs-*.otel-*''),
      (''xpack.apm.indices.span'', JSString ''traces-apm*,apm-*,traces-*.otel-*''),
      (''xpack.apm.indices.onboarding'', JSString ''apm-*''),
      (''elasticsearch.hosts'', JSString ''http://localhost:9200'')]"

text \<open>
  The first statement of \<^verbatim>\<open>readKibanaConfig\<close>:
  \<^verbatim>\<open>(yaml.load(fs.readFileSync(fs.existsSync(dev) ? dev : prod, 'utf8')) || {})\<close>.
  The YAML parser of js-yaml is the parameter \<open>yaml_load\<close>: it either throws (\<open>Inl\<close> the
  message) or returns the document. Nothing is caught, so a failing read or parse is the
  outcome of the whole call.
\<close>

definition loadedKibanaConfig ::
  "(string \<Rightarrow> string + js_value) \<Rightarrow> file_system \<Rightarrow> string \<Rightarrow> error + js_value" where
  "loadedKibanaConfig yaml_load fs kibanaConfigDir =
     (case readFileSync fs
             (if existsSync fs (kibanaDevConfig kibanaConfigDir)
              then kibanaDevConfig kibanaConfigDir
              else kibanaConfig kibanaConfigDir) of
        Inl e \<Rightarrow> Inl e
      | Inr content \<Rightarrow>
          (case yaml_load content of
             Inl msg \<Rightarrow> Inl (YAMLException msg)
           | Inr doc \<Rightarrow> Inr (js_or doc (JSObject []))))"

text \<open>
  \<^verbatim>\<open>readKibanaConfig\<close>. The object literal assigns the defaults, then the spread of the
  loaded document, then the spread of the picked environment values, each overwriting
  the keys before it.
\<close>

definition readKibanaConfig ::
  "(string \<Rightarrow> string + js_value) \<Rightarrow> file_system \<Rightarrow> process_env \<Rightarrow> string \<Rightarrow> error + settings" where
  "readKibanaConfig yaml_load fs env kibanaConfigDir =
     (case loadedKibanaConfig yaml_load fs kibanaConfigDir of
        Inl e \<Rightarrow> Inl e
      | Inr loaded \<Rightarrow>
          Inr (map_of defaults ++ own_props loaded ++ map_of (cliEsCredentials env)))"

subsection \<open>A sample installation\<close>

text \<open>
  What js-yaml returns on a few concrete files: \<^verbatim>\<open>undefined\<close> for the empty file, an
  object for a one-line mapping, an exception for an unterminated flow mapping.
\<close>

definition sample_yaml_load :: "string \<Rightarrow> string + js_value" where
  "sample_yaml_load content =
     (if content = [] then Inr JSUndefined
      else if content = ''elasticsearch.hosts: http://dev:9200''
        then Inr (JSObject [(''elasticsearch.hosts'', JSString ''http://dev:9200'')])
      else if content = ''elasticsearch.hosts: http://prod:9200''
        then Inr (JSObject [(''elasticsearch.hosts'', JSString ''http://prod:9200'')])
      else Inl ''unexpected end of the stream within a flow collection'')"

definition sample_dir :: string where
  "sample_dir = ''/kibana/config''"

definition both_files :: file_system where
  "both_files = [kibanaDevConfig sample_dir \<mapsto> File ''elasticsearch.hosts: http://dev:9200'',
                 kibanaConfig sample_dir \<mapsto> File ''elasticsearch.hosts: http://prod:9200'']"

definition production_only :: file_system where
  "production_only = [kibanaConfig sample_dir \<mapsto> File ''elasticsearch.hosts: http://prod:9200'']"

definition empty_production :: file_system where
  "empty_production = [kibanaConfig sample_dir \<mapsto> File []]"

definition broken_dev :: file_system where
  "broken_dev = [kibanaDevConfig sample_dir \<mapsto> File ''{'',
                 kibanaConfig sample_dir \<mapsto> File ''elasticsearch.hosts: http://prod:9200'']"

definition no_env :: process_env where
  "no_env = Map.empty"

definition host_env :: process_env where
  "host_env = [''ELASTICSEARCH_HOST'' \<mapsto> ''http://cli:9200'']"

definition empty_host_env :: process_env where
  "empty_host_env = [''ELASTICSEARCH_HOST'' \<mapsto> []]"

section \<open>The theme hook\<close>















section \<open>The chart panel\<close>

subsection \<open>Props, hook results and state\<close>

text \<open>
  Values that the component only passes on or tests for presence are kept opaque. The
  members of \<^verbatim>\<open>UnifiedHistogramSuggestionType\<close> that the component does not name are
  \<open>otherSuggestionType\<close>.
\<close>

datatype react_element = Element string

datatype callback = Callback string

datatype lens_attributes = LensAttributes string

datatype lens_suggestion = LensSuggestion string

datatype breakdown_context = BreakdownContext string

datatype UnifiedHistogramSuggestionType =
  lensSuggestion | histogramForESQL | otherSuggestionType

record UnifiedHistogramSuggestionContext =
  suggestion :: "lens_suggestion option"
  suggestionType :: UnifiedHistogramSuggestionType

record UnifiedHistogramChartContext =
  hidden :: "bool option"

record UnifiedHistogramVisContext =
  attributes :: "lens_attributes option"

text \<open>
  The props that decide what is rendered. \<open>renderCustomChartToggleActions\<close> holds, when
  the prop is given, what the function returns; \<open>showWriteControls\<close> is
  \<^verbatim>\<open>services.capabilities.dashboard?.showWriteControls\<close>.
\<close>

record ChartProps =
  isChartAvailable :: bool
  chart :: "UnifiedHistogramChartContext option"
  isPlainRecord :: "bool option"
  breakdown :: "breakdown_context option"
  renderCustomChartToggleActions :: "react_element option option"
  appendHistogram :: "react_element option"
  isChartLoading :: "bool option"
  onTimeIntervalChange :: "callback option"
  showWriteControls :: "bool option"

text \<open>
  What the hooks of the component return in a render: the two observed values of the
  lens service and the callback of \<^verbatim>\<open>useEditVisualization\<close>, which may be undefined.
\<close>

record ChartHooks =
  lensVisServiceCurrentSuggestionContext :: "UnifiedHistogramSuggestionContext option"
  visContext :: "UnifiedHistogramVisContext option"
  onEditVisualization :: "callback option"

record ChartState =
  isSaveModalVisible :: bool
  isFlyoutVisible :: bool

subsection \<open>What a render returns\<close>

datatype handler =
    SetIsFlyoutVisible bool
  | SetIsSaveModalVisible bool
  | HostCallback callback
  | ToggleHideChart

record button =
  label :: string
  iconType :: string
  isDisabled :: bool
  dataTestSubj :: string
  onClick :: handler

datatype chart_toggle =
    CustomToggle "react_element option"
  | ToggleGroup button

record chart_panel =
  toggle :: chart_toggle
  timeIntervalSelector :: bool
  breakdownFieldSelector :: bool
  chartActions :: "button list option"
  histogram :: bool
  progressBar :: bool
  appended :: "react_element option"
  saveModal :: bool
  chartConfigPanel :: bool

datatype chart_element =
    ChartPanelHidden
  | ChartPanel chart_panel

text \<open>Whether the returned tree holds the chart actions group, and the edit flyout.\<close>

definition chartActionsRendered :: "chart_element \<Rightarrow> bool" where
  "chartActionsRendered e =
     (case e of ChartPanelHidden \<Rightarrow> False | ChartPanel pan \<Rightarrow> chartActions pan \<noteq> None)"

definition flyoutRendered :: "chart_element \<Rightarrow> bool" where
  "flyoutRendered e =
     (case e of ChartPanelHidden \<Rightarrow> False | ChartPanel pan \<Rightarrow> chartConfigPanel pan)"

subsection \<open>The component\<close>

definition chartVisible :: "ChartProps \<Rightarrow> ChartHooks \<Rightarrow> bool" where
  "chartVisible p h =
     (isChartAvailable p
      \<and> (case chart p of None \<Rightarrow> False | Some c \<Rightarrow> hidden c \<noteq> Some True)
      \<and> (case visContext h of None \<Rightarrow> False | Some vc \<Rightarrow> attributes vc \<noteq> None))"

definition currentSuggestion :: "ChartHooks \<Rightarrow> lens_suggestion option" where
  "currentSuggestion h =
     (case lensVisServiceCurrentSuggestionContext h of None \<Rightarrow> None | Some sc \<Rightarrow> suggestion sc)"

definition canCustomizeVisualization :: "ChartProps \<Rightarrow> ChartHooks \<Rightarrow> bool" where
  "canCustomizeVisualization p h =
     (isPlainRecord p = Some True
      \<and> currentSuggestion h \<noteq> None
      \<and> (case lensVisServiceCurrentSuggestionContext h of
            None \<Rightarrow> False
          | Some sc \<Rightarrow> suggestionType sc \<in> set [lensSuggestion, histogramForESQL]))"

definition canEditVisualizationOnTheFly :: "ChartProps \<Rightarrow> ChartHooks \<Rightarrow> bool" where
  "canEditVisualizationOnTheFly p h = (canCustomizeVisualization p h \<and> chartVisible p h)"

definition canSaveVisualization :: "ChartProps \<Rightarrow> ChartHooks \<Rightarrow> bool" where
  "canSaveVisualization p h =
     (canEditVisualizationOnTheFly p h \<and> showWriteControls p = Some True)"

definition actions :: "ChartProps \<Rightarrow> ChartHooks \<Rightarrow> ChartState \<Rightarrow> button list" where
  "actions p h s =
     (if canEditVisualizationOnTheFly p h then
        [\<lparr>label = ''Edit visualization'', iconType = ''pencil'',
          isDisabled = isFlyoutVisible s,
          dataTestSubj = ''unifiedHistogramEditFlyoutVisualization'',
          onClick = SetIsFlyoutVisible True\<rparr>]
      else
        (case onEditVisualization h of
           Some edit \<Rightarrow>
             [\<lparr>label = ''Edit visualization'', iconType = ''lensApp'',
               isDisabled = False,
               dataTestSubj = ''unifiedHistogramEditVisualization'',
               onClick = HostCallback edit\<rparr>]
         | None \<Rightarrow> []))
     @ (if canSaveVisualization p h then
          [\<lparr>label = ''Save visualization'', iconType = ''save'',
            isDisabled = False,
            dataTestSubj = ''unifiedHistogramSaveVisualization'',
            onClick = SetIsSaveModalVisible True\<rparr>]
        else [])"

definition Chart :: "ChartProps \<Rightarrow> ChartHooks \<Rightarrow> ChartState \<Rightarrow> chart_element" where
  "Chart p h s =
     (if renderCustomChartToggleActions p \<noteq> None \<and> \<not> chartVisible p h then ChartPanelHidden
      else ChartPanel
        \<lparr>toggle =
           (case renderCustomChartToggleActions p of
              Some rendered \<Rightarrow> CustomToggle rendered
            | None \<Rightarrow>
                ToggleGroup
                  \<lparr>label = (if chartVisible p h then ''Hide chart'' else ''Show chart''),
                   iconType = (if chartVisible p h then ''transitionTopOut''
                               else ''transitionTopIn''),
                   isDisabled = False,
                   dataTestSubj = ''unifiedHistogramToggleChartButton'',
                   onClick = ToggleHideChart\<rparr>),
         timeIntervalSelector =
           (chartVisible p h \<and> isPlainRecord p \<noteq> Some True \<and> onTimeIntervalChange p \<noteq> None),
         breakdownFieldSelector = (chartVisible p h \<and> breakdown p \<noteq> None),
         chartActions =
           (if chartVisible p h \<and> length (actions p h s) > 0 then Some (actions p h s)
            else None),
         histogram = chartVisible p h,
         progressBar = (chartVisible p h \<and> isChartLoading p = Some True),
         appended = (if chartVisible p h then appendHistogram p else None),
         saveModal =
           (canSaveVisualization p h \<and> isSaveModalVisible s
            \<and> (case visContext h of None \<Rightarrow> False | Some vc \<Rightarrow> attributes vc \<noteq> None)),
         chartConfigPanel =
           (isFlyoutVisible s \<and> visContext h \<noteq> None
            \<and> lensVisServiceCurrentSuggestionContext h \<noteq> None)\<rparr>)"

subsection \<open>The mounted component\<close>

text \<open>
  A mounted component has its current props and hook results, its two pieces of state,
  the dependencies \<^verbatim>\<open>[chartVisible, isFlyoutVisible]\<close> of the render whose effect ran last,
  and a flag saying that a render has been committed whose effect has not run yet.
\<close>

record chart_instance =
  props :: ChartProps
  hooks :: ChartHooks
  state :: ChartState
  effectDeps :: "(bool \<times> bool) option"
  effectsPending :: bool

text \<open>The first render: both \<^verbatim>\<open>useState(false)\<close>.\<close>

definition mount :: "ChartProps \<Rightarrow> ChartHooks \<Rightarrow> chart_instance" where
  "mount p h =
     \<lparr>props = p, hooks = h,
      state = \<lparr>isSaveModalVisible = False, isFlyoutVisible = False\<rparr>,
      effectDeps = None, effectsPending = True\<rparr>"

text \<open>
  The \<^verbatim>\<open>useEffect\<close> of the component, run after a render is committed. Its body runs when
  the dependencies differ from those of the render before; setting the state renders
  again.
\<close>

definition closeFlyoutEffect :: "chart_instance \<Rightarrow> chart_instance" where
  "closeFlyoutEffect c =
     (let deps = (chartVisible (props c) (hooks c), isFlyoutVisible (state c))
      in if effectDeps c = Some deps then c\<lparr>effectsPending := False\<rparr>
         else if \<not> chartVisible (props c) (hooks c) \<and> isFlyoutVisible (state c)
           then c\<lparr>state := (state c)\<lparr>isFlyoutVisible := False\<rparr>,
                  effectDeps := Some deps, effectsPending := True\<rparr>
         else c\<lparr>effectDeps := Some deps, effectsPending := False\<rparr>)"

text \<open>What a click handler does to the state; the callbacks of the host leave it alone.\<close>

fun handle :: "handler \<Rightarrow> ChartState \<Rightarrow> ChartState" where
  "handle (SetIsFlyoutVisible v) s = s\<lparr>isFlyoutVisible := v\<rparr>"
| "handle (SetIsSaveModalVisible v) s = s\<lparr>isSaveModalVisible := v\<rparr>"
| "handle (HostCallback f) s = s"
| "handle ToggleHideChart s = s"

text \<open>
  One step of the component. The effect of a committed render runs before anything else
  happens. After it, the host may render the component with new props or hook results,
  the user may click an enabled button of the rendered chart actions, the rendered
  \<^verbatim>\<open>ChartConfigPanel\<close> may call the \<^verbatim>\<open>setIsFlyoutVisible\<close> it was given, and the
  rendered save modal may close.
\<close>

inductive step :: "chart_instance \<Rightarrow> chart_instance \<Rightarrow> bool" where
  effect: "effectsPending c \<Longrightarrow> step c (closeFlyoutEffect c)"
| rerender: "\<not> effectsPending c \<Longrightarrow> step c (c\<lparr>props := p, hooks := h, effectsPending := True\<rparr>)"
| click:
    "\<not> effectsPending c \<Longrightarrow> Chart (props c) (hooks c) (state c) = ChartPanel panel \<Longrightarrow>
     chartActions panel = Some bs \<Longrightarrow> b \<in> set bs \<Longrightarrow> \<not> isDisabled b \<Longrightarrow>
     step c (c\<lparr>state := handle (onClick b) (state c), effectsPending := True\<rparr>)"
| config_panel:
    "\<not> effectsPending c \<Longrightarrow> Chart (props c) (hooks c) (state c) = ChartPanel panel \<Longrightarrow>
     chartConfigPanel panel \<Longrightarrow>
     step c (c\<lparr>state := (state c)\<lparr>isFlyoutVisible := v\<rparr>, effectsPending := True\<rparr>)"
| save_modal_close:
    "\<not> effectsPending c \<Longrightarrow> Chart (props c) (hooks c) (state c) = ChartPanel panel \<Longrightarrow>
     saveModal panel \<Longrightarrow>
     step c (c\<lparr>state := (state c)\<lparr>isSaveModalVisible := False\<rparr>, effectsPending := True\<rparr>)"

inductive reachable :: "chart_instance \<Rightarrow> bool" where
  mounted: "reachable (mount p h)"
| stepped: "reachable c \<Longrightarrow> step c c' \<Longrightarrow> reachable c'"

subsection \<open>Sample charts\<close>

definition visible_props :: ChartProps where
  "visible_props =
     \<lparr>isChartAvailable = True, chart = Some \<lparr>hidden = Some False\<rparr>,
      isPlainRecord = Some True, breakdown = None, renderCustomChartToggleActions = None,
      appendHistogram = None, isChartLoading = None, onTimeIntervalChange = None,
      showWriteControls = None\<rparr>"

definition hidden_props :: ChartProps where
  "hidden_props = visible_props\<lparr>chart := Some \<lparr>hidden = Some True\<rparr>\<rparr>"

definition dataview_props :: ChartProps where
  "dataview_props = visible_props\<lparr>isPlainRecord := Some False\<rparr>"

definition esql_hooks :: ChartHooks where
  "esql_hooks =
     \<lparr>lensVisServiceCurrentSuggestionContext =
        Some \<lparr>suggestion = Some (LensSuggestion ''bar''), suggestionType = lensSuggestion\<rparr>,
      visContext = Some \<lparr>attributes = Some (LensAttributes ''bar'')\<rparr>,
      onEditVisualization = None\<rparr>"

definition closed_state :: ChartState where
  "closed_state = \<lparr>isSaveModalVisible = False, isFlyoutVisible = False\<rparr>"

definition flyout_state :: ChartState where
  "flyout_state = \<lparr>isSaveModalVisible = False, isFlyoutVisible = True\<rparr>"

text \<open>
  A run of the component: mounted with a visible chart and its effect run; the edit button
  clicked and the effect run; then rendered again by the host with the chart hidden.
\<close>

definition settled_chart :: chart_instance where
  "settled_chart =
     \<lparr>props = visible_props, hooks = esql_hooks, state = closed_state,
      effectDeps = Some (True, False), effectsPending = False\<rparr>"

definition edit_clicked :: chart_instance where
  "edit_clicked =
     \<lparr>props = visible_props, hooks = esql_hooks, state = flyout_state,
      effectDeps = Some (True, False), effectsPending = True\<rparr>"

definition flyout_over_visible_chart :: chart_instance where
  "flyout_over_visible_chart =
     \<lparr>props = visible_props, hooks = esql_hooks, state = flyout_state,
      effectDeps = Some (True, True), effectsPending = False\<rparr>"


definition flyout_over_hidden_chart :: chart_instance where
  "flyout_over_hidden_chart =
     \<lparr>props = hidden_props, hooks = esql_hooks, state = flyout_state,
      effectDeps = Some (True, True), effectsPending = True\<rparr>"






section \<open>Properties of the config loader\<close>

lemma paths_differ: "kibanaDevConfig d \<noteq> kibanaConfig d"
  by (simp add: kibanaDevConfig_def kibanaConfig_def)

text \<open>What the picked environment values hold for each key.\<close>

lemma cli_lookup:
  "map_of (cliEsCredentials env) k =
     (if k = ''elasticsearch.username'' then
        (case env ''ELASTICSEARCH_USERNAME'' of None \<Rightarrow> None
         | Some v \<Rightarrow> if v = [] then None else Some (JSString v))
      else if k = ''elasticsearch.password'' then
        (case env ''ELASTICSEARCH_PASSWORD'' of None \<Rightarrow> None
         | Some v \<Rightarrow> if v = [] then None else Some (JSString v))
      else if k = ''elasticsearch.hosts'' then
        (case env ''ELASTICSEARCH_HOST'' of None \<Rightarrow> None
         | Some v \<Rightarrow> if v = [] then None else Some (JSString v))
      else None)"
  by (simp add: cliEsCredentials_def pickBy_def process_env_get_def split: option.splits)

lemma loaded_from_file:
  assumes "readFileSync fs (if existsSync fs (kibanaDevConfig dir) then kibanaDevConfig dir
                            else kibanaConfig dir) = Inr c"
      and "yaml_load c = Inr doc"
  shows "loadedKibanaConfig yaml_load fs dir = Inr (js_or doc (JSObject []))"
  using assms by (simp add: loadedKibanaConfig_def)

lemma selected_file:
  assumes "fs (kibanaDevConfig dir) = Some (File c)
           \<or> (fs (kibanaDevConfig dir) = None \<and> fs (kibanaConfig dir) = Some (File c))"
  shows "readFileSync fs (if existsSync fs (kibanaDevConfig dir) then kibanaDevConfig dir
                          else kibanaConfig dir) = Inr c"
  using assms by (auto simp: readFileSync_def existsSync_def)

lemma readKibanaConfig_Inr:
  "readKibanaConfig yaml_load fs env dir = Inr m \<longleftrightarrow>
     (\<exists>loaded. loadedKibanaConfig yaml_load fs dir = Inr loaded
        \<and> m = map_of defaults ++ own_props loaded ++ map_of (cliEsCredentials env))"
  by (auto simp: readKibanaConfig_def split: sum.splits)

lemmas sample_defs = both_files_def production_only_def empty_production_def broken_dev_def
  sample_dir_def kibanaDevConfig_def kibanaConfig_def sample_yaml_load_def
  no_env_def host_env_def empty_host_env_def

text \<open>
  With no dev file, the production file is read: whatever fails afterwards, it is never
  the absence of the dev file.
\<close>

lemma readKibanaConfig_missing_dev_error:
  "fs (kibanaDevConfig dir) = None \<Longrightarrow>
     readKibanaConfig yaml_load fs env dir \<noteq> Inl (ENOENT (kibanaDevConfig dir))"
  by (auto simp: readKibanaConfig_def loadedKibanaConfig_def readFileSync_def existsSync_def
       dest: paths_differ [symmetric, THEN notE]
       split: sum.splits option.splits fs_entry.splits)

text \<open>
  C1. The settings are loaded from \<^verbatim>\<open>kibana.dev.yml\<close> whenever that file exists, whatever
  \<^verbatim>\<open>kibana.yml\<close> is, and from \<^verbatim>\<open>kibana.yml\<close> when the dev file is missing. The call then
  returns a mapping: the defaults, overwritten by the properties of the document of the
  file that was read, overwritten by the environment values; so every value of that
  document is in the mapping, unless the environment overrides its key.
\<close>

theorem readKibanaConfig_dev_else_production:
  assumes "fs (kibanaDevConfig dir) = Some (File c)
           \<or> (fs (kibanaDevConfig dir) = None \<and> fs (kibanaConfig dir) = Some (File c))"
      and "yaml_load c = Inr doc"
  shows "\<exists>m. readKibanaConfig yaml_load fs env dir = Inr m
           \<and> m = map_of defaults ++ own_props (js_or doc (JSObject []))
                   ++ map_of (cliEsCredentials env)
           \<and> (\<forall>k v. own_props (js_or doc (JSObject [])) k = Some v
                 \<longrightarrow> map_of (cliEsCredentials env) k = None \<longrightarrow> m k = Some v)"
proof -
  have "loadedKibanaConfig yaml_load fs dir = Inr (js_or doc (JSObject []))"
    using assms by (intro loaded_from_file selected_file)
  then show ?thesis
    by (simp add: readKibanaConfig_def map_add_def)
qed

theorem readKibanaConfig_dev_else_production_witness:
  "both_files (kibanaDevConfig sample_dir) = Some (File ''elasticsearch.hosts: http://dev:9200'')
   \<and> both_files (kibanaConfig sample_dir) = Some (File ''elasticsearch.hosts: http://prod:9200'')
   \<and> production_only (kibanaDevConfig sample_dir) = None
   \<and> projr (readKibanaConfig sample_yaml_load both_files no_env sample_dir)
         ''elasticsearch.hosts''
       = Some (JSString ''http://dev:9200'')
   \<and> projr (readKibanaConfig sample_yaml_load production_only no_env sample_dir)
         ''elasticsearch.hosts''
       = Some (JSString ''http://prod:9200'')"
proof -
  have dev: "both_files (kibanaDevConfig sample_dir)
               = Some (File ''elasticsearch.hosts: http://dev:9200'')"
    and prod: "both_files (kibanaConfig sample_dir)
               = Some (File ''elasticsearch.hosts: http://prod:9200'')"
    and nodev: "production_only (kibanaDevConfig sample_dir) = None"
    and prod': "production_only (kibanaConfig sample_dir)
               = Some (File ''elasticsearch.hosts: http://prod:9200'')"
    by (simp_all add: sample_defs)
  have yd: "sample_yaml_load ''elasticsearch.hosts: http://dev:9200''
              = Inr (JSObject [(''elasticsearch.hosts'', JSString ''http://dev:9200'')])"
    and yp: "sample_yaml_load ''elasticsearch.hosts: http://prod:9200''
              = Inr (JSObject [(''elasticsearch.hosts'', JSString ''http://prod:9200'')])"
    by (simp_all add: sample_yaml_load_def)
  have nocli: "map_of (cliEsCredentials no_env) ''elasticsearch.hosts'' = None"
    by (simp add: cli_lookup no_env_def)
  from readKibanaConfig_dev_else_production
         [where fs = both_files and dir = sample_dir and yaml_load = sample_yaml_load
            and env = no_env, OF disjI1, OF dev yd] nocli
  have 1: "projr (readKibanaConfig sample_yaml_load both_files no_env sample_dir)
             ''elasticsearch.hosts'' = Some (JSString ''http://dev:9200'')"
    by (auto simp: js_or_def)
  from readKibanaConfig_dev_else_production
         [where fs = production_only and dir = sample_dir and yaml_load = sample_yaml_load
            and env = no_env, OF disjI2, OF conjI, OF nodev prod' yp] nocli
  have 2: "projr (readKibanaConfig sample_yaml_load production_only no_env sample_dir)
             ''elasticsearch.hosts'' = Some (JSString ''http://prod:9200'')"
    by (auto simp: js_or_def)
  from dev prod nodev 1 2 show ?thesis by blast
qed

text \<open>
  C2, as amended. Whenever the call returns a mapping and one of
  \<^verbatim>\<open>ELASTICSEARCH_USERNAME\<close>, \<^verbatim>\<open>ELASTICSEARCH_PASSWORD\<close>, \<^verbatim>\<open>ELASTICSEARCH_HOST\<close> is set to a
  non-empty string, the key it stands for holds that string, whatever the YAML file and
  the defaults say.
\<close>

theorem env_overrides_yaml_and_defaults:
  assumes "readKibanaConfig yaml_load fs env dir = Inr m"
      and "v \<noteq> []"
  shows "(env ''ELASTICSEARCH_USERNAME'' = Some v
            \<longrightarrow> m ''elasticsearch.username'' = Some (JSString v))
       \<and> (env ''ELASTICSEARCH_PASSWORD'' = Some v
            \<longrightarrow> m ''elasticsearch.password'' = Some (JSString v))
       \<and> (env ''ELASTICSEARCH_HOST'' = Some v
            \<longrightarrow> m ''elasticsearch.hosts'' = Some (JSString v))"
  using assms by (auto simp: readKibanaConfig_Inr map_add_def cli_lookup)

theorem env_overrides_yaml_and_defaults_witness:
  "host_env ''ELASTICSEARCH_HOST'' = Some ''http://cli:9200''
   \<and> projr (readKibanaConfig sample_yaml_load both_files host_env sample_dir)
        ''elasticsearch.hosts'' = Some (JSString ''http://cli:9200'')"
proof -
  have ok: "readKibanaConfig sample_yaml_load both_files host_env sample_dir
          = Inr (projr (readKibanaConfig sample_yaml_load both_files host_env sample_dir))"
    by (simp add: readKibanaConfig_def loadedKibanaConfig_def readFileSync_def existsSync_def
          sample_defs)
  have ne: "''http://cli:9200'' \<noteq> []" by simp
  have set: "host_env ''ELASTICSEARCH_HOST'' = Some ''http://cli:9200''"
    by (simp add: host_env_def)
  from env_overrides_yaml_and_defaults [OF ok ne] set show ?thesis by blast
qed

text \<open>
  C2 as stated fails where the variable is set to the empty string: with
  \<^verbatim>\<open>ELASTICSEARCH_HOST=\<close> and an empty \<^verbatim>\<open>kibana.yml\<close>, the call returns a mapping whose
  \<^verbatim>\<open>elasticsearch.hosts\<close> is the default, not the variable's value.
\<close>

theorem empty_env_value_does_not_override:
  "empty_host_env ''ELASTICSEARCH_HOST'' = Some []
   \<and> \<not> isl (readKibanaConfig sample_yaml_load empty_production empty_host_env sample_dir)
   \<and> projr (readKibanaConfig sample_yaml_load empty_production empty_host_env sample_dir)
        ''elasticsearch.hosts'' = Some (JSString ''http://localhost:9200'')
   \<and> projr (readKibanaConfig sample_yaml_load empty_production empty_host_env sample_dir)
        ''elasticsearch.hosts'' \<noteq> Some (JSString [])"
  by (simp add: readKibanaConfig_def loadedKibanaConfig_def readFileSync_def existsSync_def
        sample_defs js_or_def map_add_def cli_lookup defaults_def)

text \<open>Index keys are numerals, so no named key is among them.\<close>

lemma decimal_digits: "set (decimal n) \<subseteq> set ''0123456789''"
proof (induction n rule: decimal.induct)
  case (1 n)
  show ?case
  proof (cases "n < 10")
    case True
    then have "''0123456789'' ! n \<in> set ''0123456789''"
      by (intro nth_mem) simp
    with True show ?thesis by (subst decimal.simps) simp
  next
    case False
    have "''0123456789'' ! (n mod 10) \<in> set ''0123456789''"
      by (intro nth_mem) simp
    with False 1 show ?thesis by (subst decimal.simps) simp
  qed
qed

lemma not_an_index:
  assumes "c \<in> set k" and "c \<notin> set ''0123456789''"
  shows "k \<notin> set (index_keys n)"
  using assms decimal_digits by (auto simp: index_keys_def)

lemma map_of_zip_None: "k \<notin> set ks \<Longrightarrow> map_of (zip ks vs) k = None"
proof -
  have "k \<notin> fst ` set (zip ks vs)" if "k \<notin> set ks"
    using that by (auto dest: set_zip_leftD)
  then show "k \<notin> set ks \<Longrightarrow> map_of (zip ks vs) k = None"
    by (simp add: map_of_eq_None_iff)
qed

lemma own_props_named_key:
  assumes "c \<in> set k" and "c \<notin> set ''0123456789''"
      and "\<forall>kvs. doc = JSObject kvs \<longrightarrow> map_of kvs k = None"
  shows "own_props (js_or doc (JSObject [])) k = None"
proof (cases "truthy doc")
  case False
  then show ?thesis by (simp add: js_or_def)
next
  case True
  then have "own_props (js_or doc (JSObject [])) k = own_props doc k"
    by (simp add: js_or_def)
  also have "\<dots> = None"
    using assms(3) not_an_index [OF assms(1,2)]
    by (cases doc) (simp_all add: map_of_zip_None)
  finally show ?thesis .
qed

lemma own_props_object:
  "own_props (js_or (JSObject kvs) (JSObject [])) = map_of kvs"
  by (simp add: js_or_def)

lemma default_values:
  "map_of defaults ''xpack.apm.indices.transaction''
     = Some (JSString ''traces-apm*,apm-*,traces-*.otel-*'')"
  "map_of defaults ''xpack.apm.indices.metric''
     = Some (JSString ''metrics-apm*,apm-*,metrics-*.otel-*'')"
  "map_of defaults ''xpack.apm.indices.error'' = Some (JSString ''logs-apm*,apm-*,logs-*.otel-*'')"
  "map_of defaults ''xpack.apm.indices.span''
     = Some (JSString ''traces-apm*,apm-*,traces-*.otel-*'')"
  "map_of defaults ''xpack.apm.indices.onboarding'' = Some (JSString ''apm-*'')"
  "map_of defaults ''elasticsearch.hosts'' = Some (JSString ''http://localhost:9200'')"
  by (simp_all add: defaults_def)

lemma cli_username:
  "map_of (cliEsCredentials env) ''elasticsearch.username''
     = (case env ''ELASTICSEARCH_USERNAME'' of None \<Rightarrow> None
        | Some v \<Rightarrow> if v = [] then None else Some (JSString v))"
  by (simp add: cli_lookup)

lemma cli_password:
  "map_of (cliEsCredentials env) ''elasticsearch.password''
     = (case env ''ELASTICSEARCH_PASSWORD'' of None \<Rightarrow> None
        | Some v \<Rightarrow> if v = [] then None else Some (JSString v))"
  by (simp add: cli_lookup)

lemma cli_hosts:
  "map_of (cliEsCredentials env) ''elasticsearch.hosts''
     = (case env ''ELASTICSEARCH_HOST'' of None \<Rightarrow> None
        | Some v \<Rightarrow> if v = [] then None else Some (JSString v))"
  by (simp add: cli_lookup)

lemma cli_other:
  "k \<notin> {''elasticsearch.username'', ''elasticsearch.password'', ''elasticsearch.hosts''}
     \<Longrightarrow> map_of (cliEsCredentials env) k = None"
  by (simp add: cli_lookup)

lemma cli_none:
  "map_of (cliEsCredentials env) ''xpack.apm.indices.transaction'' = None"
  "map_of (cliEsCredentials env) ''xpack.apm.indices.metric'' = None"
  "map_of (cliEsCredentials env) ''xpack.apm.indices.error'' = None"
  "map_of (cliEsCredentials env) ''xpack.apm.indices.span'' = None"
  "map_of (cliEsCredentials env) ''xpack.apm.indices.onboarding'' = None"
  by (simp_all add: cli_lookup)


text \<open>
  C5. Whatever document the file holds and whatever the environment, the returned mapping
  has the five \<^verbatim>\<open>xpack.apm.indices.*\<close> keys and \<^verbatim>\<open>elasticsearch.hosts\<close>. A defaulted key that
  the YAML mapping does not give holds its built-in default, \<^verbatim>\<open>elasticsearch.hosts\<close> if
  moreover \<^verbatim>\<open>ELASTICSEARCH_HOST\<close> is unset or empty. A key that the YAML mapping gives holds
  the YAML value, over any default, unless it is one of the three elasticsearch keys and
  its variable is set to a non-empty string; then it holds the variable's value.
\<close>

theorem defaulted_keys_and_precedence:
  assumes "readFileSync fs (if existsSync fs (kibanaDevConfig dir) then kibanaDevConfig dir
                            else kibanaConfig dir) = Inr c"
      and "yaml_load c = Inr doc"
  shows "\<exists>m. readKibanaConfig yaml_load fs env dir = Inr m
     \<and> m ''xpack.apm.indices.transaction'' \<noteq> None
       \<and> m ''xpack.apm.indices.metric'' \<noteq> None
       \<and> m ''xpack.apm.indices.error'' \<noteq> None
       \<and> m ''xpack.apm.indices.span'' \<noteq> None
       \<and> m ''xpack.apm.indices.onboarding'' \<noteq> None
       \<and> m ''elasticsearch.hosts'' \<noteq> None
     \<and> ((\<forall>kvs. doc = JSObject kvs \<longrightarrow> map_of kvs ''xpack.apm.indices.transaction'' = None)
          \<longrightarrow> m ''xpack.apm.indices.transaction'' = Some (JSString ''traces-apm*,apm-*,traces-*.otel-*''))
     \<and> ((\<forall>kvs. doc = JSObject kvs \<longrightarrow> map_of kvs ''xpack.apm.indices.metric'' = None)
          \<longrightarrow> m ''xpack.apm.indices.metric'' = Some (JSString ''metrics-apm*,apm-*,metrics-*.otel-*''))
     \<and> ((\<forall>kvs. doc = JSObject kvs \<longrightarrow> map_of kvs ''xpack.apm.indices.error'' = None)
          \<longrightarrow> m ''xpack.apm.indices.error'' = Some (JSString ''logs-apm*,apm-*,logs-*.otel-*''))
     \<and> ((\<forall>kvs. doc = JSObject kvs \<longrightarrow> map_of kvs ''xpack.apm.indices.span'' = None)
          \<longrightarrow> m ''xpack.apm.indices.span'' = Some (JSString ''traces-apm*,apm-*,traces-*.otel-*''))
     \<and> ((\<forall>kvs. doc = JSObject kvs \<longrightarrow> map_of kvs ''xpack.apm.indices.onboarding'' = None)
          \<longrightarrow> m ''xpack.apm.indices.onboarding'' = Some (JSString ''apm-*''))
     \<and> ((\<forall>kvs. doc = JSObject kvs \<longrightarrow> map_of kvs ''elasticsearch.hosts'' = None)
          \<and> (env ''ELASTICSEARCH_HOST'' = None \<or> env ''ELASTICSEARCH_HOST'' = Some [])
          \<longrightarrow> m ''elasticsearch.hosts'' = Some (JSString ''http://localhost:9200''))
     \<and> (\<forall>kvs k v. doc = JSObject kvs \<and> map_of kvs k = Some v
            \<and> k \<notin> {''elasticsearch.username'', ''elasticsearch.password'', ''elasticsearch.hosts''}
          \<longrightarrow> m k = Some v)
     \<and> (\<forall>kvs v. doc = JSObject kvs \<and> map_of kvs ''elasticsearch.username'' = Some v
            \<and> (env ''ELASTICSEARCH_USERNAME'' = None \<or> env ''ELASTICSEARCH_USERNAME'' = Some [])
          \<longrightarrow> m ''elasticsearch.username'' = Some v)
     \<and> (\<forall>kvs v. doc = JSObject kvs \<and> map_of kvs ''elasticsearch.password'' = Some v
            \<and> (env ''ELASTICSEARCH_PASSWORD'' = None \<or> env ''ELASTICSEARCH_PASSWORD'' = Some [])
          \<longrightarrow> m ''elasticsearch.password'' = Some v)
     \<and> (\<forall>kvs v. doc = JSObject kvs \<and> map_of kvs ''elasticsearch.hosts'' = Some v
            \<and> (env ''ELASTICSEARCH_HOST'' = None \<or> env ''ELASTICSEARCH_HOST'' = Some [])
          \<longrightarrow> m ''elasticsearch.hosts'' = Some v)
     \<and> (\<forall>s. env ''ELASTICSEARCH_USERNAME'' = Some s \<and> s \<noteq> []
          \<longrightarrow> m ''elasticsearch.username'' = Some (JSString s))
     \<and> (\<forall>s. env ''ELASTICSEARCH_PASSWORD'' = Some s \<and> s \<noteq> []
          \<longrightarrow> m ''elasticsearch.password'' = Some (JSString s))
     \<and> (\<forall>s. env ''ELASTICSEARCH_HOST'' = Some s \<and> s \<noteq> []
          \<longrightarrow> m ''elasticsearch.hosts'' = Some (JSString s))"
proof -
  let ?loaded = "js_or doc (JSObject [])"
  let ?m = "map_of defaults ++ own_props ?loaded ++ map_of (cliEsCredentials env)"
  have r: "readKibanaConfig yaml_load fs env dir = Inr ?m"
    using assms by (simp add: readKibanaConfig_def loadedKibanaConfig_def)
  have over: "?m k = Some v" if "map_of (cliEsCredentials env) k = Some v" for k v
    using that by (simp add: map_add_def)
  have yaml: "?m k = Some v"
    if "doc = JSObject kvs" and "map_of kvs k = Some v"
      and "map_of (cliEsCredentials env) k = None" for kvs k v
    using that by (simp add: map_add_def own_props_object)
  have dflt: "?m k = map_of defaults k"
    if "own_props ?loaded k = None" and "map_of (cliEsCredentials env) k = None" for k
    using that by (simp add: map_add_def)
  have present: "?m k \<noteq> None" if "map_of defaults k \<noteq> None" for k
    using that by (auto simp: map_add_def split: option.splits)
  have a1: "?m ''xpack.apm.indices.transaction'' \<noteq> None"
    by (rule present) (simp add: default_values)
  have a2: "?m ''xpack.apm.indices.metric'' \<noteq> None"
    by (rule present) (simp add: default_values)
  have a3: "?m ''xpack.apm.indices.error'' \<noteq> None"
    by (rule present) (simp add: default_values)
  have a4: "?m ''xpack.apm.indices.span'' \<noteq> None"
    by (rule present) (simp add: default_values)
  have a5: "?m ''xpack.apm.indices.onboarding'' \<noteq> None"
    by (rule present) (simp add: default_values)
  have a6: "?m ''elasticsearch.hosts'' \<noteq> None"
    by (rule present) (simp add: default_values)
  have named: "?m k = map_of defaults k"
    if "\<forall>kvs. doc = JSObject kvs \<longrightarrow> map_of kvs k = None" and "CHR ''a'' \<in> set k"
      and "map_of (cliEsCredentials env) k = None" for k
  proof -
    have "CHR ''a'' \<notin> set ''0123456789''" by simp
    from own_props_named_key [OF that(2) this that(1)] that(3) show ?thesis
      by (rule dflt)
  qed
  have e1: "(\<forall>kvs. doc = JSObject kvs \<longrightarrow> map_of kvs ''xpack.apm.indices.transaction'' = None)
       \<longrightarrow> ?m ''xpack.apm.indices.transaction'' = Some (JSString ''traces-apm*,apm-*,traces-*.otel-*'')"
    using named [of "''xpack.apm.indices.transaction''"] by (simp add: cli_none default_values)
  have e2: "(\<forall>kvs. doc = JSObject kvs \<longrightarrow> map_of kvs ''xpack.apm.indices.metric'' = None)
       \<longrightarrow> ?m ''xpack.apm.indices.metric'' = Some (JSString ''metrics-apm*,apm-*,metrics-*.otel-*'')"
    using named [of "''xpack.apm.indices.metric''"] by (simp add: cli_none default_values)
  have e3: "(\<forall>kvs. doc = JSObject kvs \<longrightarrow> map_of kvs ''xpack.apm.indices.error'' = None)
       \<longrightarrow> ?m ''xpack.apm.indices.error'' = Some (JSString ''logs-apm*,apm-*,logs-*.otel-*'')"
    using named [of "''xpack.apm.indices.error''"] by (simp add: cli_none default_values)
  have e4: "(\<forall>kvs. doc = JSObject kvs \<longrightarrow> map_of kvs ''xpack.apm.indices.span'' = None)
       \<longrightarrow> ?m ''xpack.apm.indices.span'' = Some (JSString ''traces-apm*,apm-*,traces-*.otel-*'')"
    using named [of "''xpack.apm.indices.span''"] by (simp add: cli_none default_values)
  have e5: "(\<forall>kvs. doc = JSObject kvs \<longrightarrow> map_of kvs ''xpack.apm.indices.onboarding'' = None)
       \<longrightarrow> ?m ''xpack.apm.indices.onboarding'' = Some (JSString ''apm-*'')"
    using named [of "''xpack.apm.indices.onboarding''"] by (simp add: cli_none default_values)
  have H: "(\<forall>kvs. doc = JSObject kvs \<longrightarrow> map_of kvs ''elasticsearch.hosts'' = None)
          \<and> (env ''ELASTICSEARCH_HOST'' = None \<or> env ''ELASTICSEARCH_HOST'' = Some [])
          \<longrightarrow> ?m ''elasticsearch.hosts'' = Some (JSString ''http://localhost:9200'')"
  proof
    assume h: "(\<forall>kvs. doc = JSObject kvs \<longrightarrow> map_of kvs ''elasticsearch.hosts'' = None)
          \<and> (env ''ELASTICSEARCH_HOST'' = None \<or> env ''ELASTICSEARCH_HOST'' = Some [])"
    then have "own_props ?loaded ''elasticsearch.hosts'' = None"
      by (intro own_props_named_key [of "CHR ''a''"]) simp_all
    moreover from h have "map_of (cliEsCredentials env) ''elasticsearch.hosts'' = None"
      by (auto simp: cli_hosts)
    ultimately show "?m ''elasticsearch.hosts'' = Some (JSString ''http://localhost:9200'')"
      using dflt by (simp add: default_values)
  qed
  have C: "\<forall>kvs k v. doc = JSObject kvs \<and> map_of kvs k = Some v
            \<and> k \<notin> {''elasticsearch.username'', ''elasticsearch.password'', ''elasticsearch.hosts''}
          \<longrightarrow> ?m k = Some v"
  proof (intro allI impI)
    fix kvs k v
    assume h: "doc = JSObject kvs \<and> map_of kvs k = Some v
            \<and> k \<notin> {''elasticsearch.username'', ''elasticsearch.password'', ''elasticsearch.hosts''}"
    then have "map_of (cliEsCredentials env) k = None"
      by (intro cli_other) simp
    with h show "?m k = Some v"
      by (intro yaml [of kvs]) simp_all
  qed
  have Dyu: "\<forall>kvs v. doc = JSObject kvs \<and> map_of kvs ''elasticsearch.username'' = Some v
            \<and> (env ''ELASTICSEARCH_USERNAME'' = None \<or> env ''ELASTICSEARCH_USERNAME'' = Some [])
          \<longrightarrow> ?m ''elasticsearch.username'' = Some v"
    using yaml [of _ "''elasticsearch.username''"] by (auto simp: cli_username)
  have Deu: "\<forall>s. env ''ELASTICSEARCH_USERNAME'' = Some s \<and> s \<noteq> []
          \<longrightarrow> ?m ''elasticsearch.username'' = Some (JSString s)"
    using over [of "''elasticsearch.username''"] by (simp add: cli_username)
  have Dyp: "\<forall>kvs v. doc = JSObject kvs \<and> map_of kvs ''elasticsearch.password'' = Some v
            \<and> (env ''ELASTICSEARCH_PASSWORD'' = None \<or> env ''ELASTICSEARCH_PASSWORD'' = Some [])
          \<longrightarrow> ?m ''elasticsearch.password'' = Some v"
    using yaml [of _ "''elasticsearch.password''"] by (auto simp: cli_password)
  have Dep: "\<forall>s. env ''ELASTICSEARCH_PASSWORD'' = Some s \<and> s \<noteq> []
          \<longrightarrow> ?m ''elasticsearch.password'' = Some (JSString s)"
    using over [of "''elasticsearch.password''"] by (simp add: cli_password)
  have Dyh: "\<forall>kvs v. doc = JSObject kvs \<and> map_of kvs ''elasticsearch.hosts'' = Some v
            \<and> (env ''ELASTICSEARCH_HOST'' = None \<or> env ''ELASTICSEARCH_HOST'' = Some [])
          \<longrightarrow> ?m ''elasticsearch.hosts'' = Some v"
    using yaml [of _ "''elasticsearch.hosts''"] by (auto simp: cli_hosts)
  have Deh: "\<forall>s. env ''ELASTICSEARCH_HOST'' = Some s \<and> s \<noteq> []
          \<longrightarrow> ?m ''elasticsearch.hosts'' = Some (JSString s)"
    using over [of "''elasticsearch.hosts''"] by (simp add: cli_hosts)
  show ?thesis
    by (intro exI [of _ ?m] conjI)
       (fact r a1 a2 a3 a4 a5 a6 e1 e2 e3 e4 e5 H C Dyu Dyp Dyh Deu Dep Deh)+
qed

theorem defaulted_keys_and_precedence_witness:
  "projr (readKibanaConfig sample_yaml_load both_files host_env sample_dir)
      ''elasticsearch.hosts'' = Some (JSString ''http://cli:9200'')
   \<and> projr (readKibanaConfig sample_yaml_load both_files no_env sample_dir)
      ''elasticsearch.hosts'' = Some (JSString ''http://dev:9200'')
   \<and> projr (readKibanaConfig sample_yaml_load both_files host_env sample_dir)
      ''xpack.apm.indices.onboarding'' = Some (JSString ''apm-*'')
   \<and> projr (readKibanaConfig sample_yaml_load empty_production no_env sample_dir)
      ''elasticsearch.hosts'' = Some (JSString ''http://localhost:9200'')"
proof -
  let ?kvs = "[(''elasticsearch.hosts'', JSString ''http://dev:9200'')]"
  have r: "readFileSync both_files
             (if existsSync both_files (kibanaDevConfig sample_dir) then kibanaDevConfig sample_dir
              else kibanaConfig sample_dir) = Inr ''elasticsearch.hosts: http://dev:9200''"
    by (simp add: readFileSync_def existsSync_def sample_defs)
  have y: "sample_yaml_load ''elasticsearch.hosts: http://dev:9200'' = Inr (JSObject ?kvs)"
    by (simp add: sample_yaml_load_def)
  have r0: "readFileSync empty_production
             (if existsSync empty_production (kibanaDevConfig sample_dir)
              then kibanaDevConfig sample_dir else kibanaConfig sample_dir) = Inr []"
    by (simp add: readFileSync_def existsSync_def sample_defs)
  have y0: "sample_yaml_load [] = Inr JSUndefined"
    by (simp add: sample_yaml_load_def)
  have set: "host_env ''ELASTICSEARCH_HOST'' = Some ''http://cli:9200''"
    and unset: "no_env ''ELASTICSEARCH_HOST'' = None"
    by (simp_all add: host_env_def no_env_def)
  have hosts: "map_of ?kvs ''elasticsearch.hosts'' = Some (JSString ''http://dev:9200'')"
    and onboarding: "map_of ?kvs ''xpack.apm.indices.onboarding'' = None"
    by simp_all
  from defaulted_keys_and_precedence
         [where fs = both_files and dir = sample_dir and yaml_load = sample_yaml_load
            and env = host_env, OF r y]
  obtain m1 where m1: "readKibanaConfig sample_yaml_load both_files host_env sample_dir = Inr m1"
    and e1: "(\<forall>kvs. JSObject ?kvs = JSObject kvs
                \<longrightarrow> map_of kvs ''xpack.apm.indices.onboarding'' = None)
             \<longrightarrow> m1 ''xpack.apm.indices.onboarding'' = Some (JSString ''apm-*'')"
    and d1: "\<forall>s. host_env ''ELASTICSEARCH_HOST'' = Some s \<and> s \<noteq> []
             \<longrightarrow> m1 ''elasticsearch.hosts'' = Some (JSString s)"
    by (elim exE conjE) (erule that; assumption)
  from d1 set have a: "m1 ''elasticsearch.hosts'' = Some (JSString ''http://cli:9200'')"
    by simp
  from e1 onboarding have c: "m1 ''xpack.apm.indices.onboarding'' = Some (JSString ''apm-*'')"
    by simp
  from defaulted_keys_and_precedence
         [where fs = both_files and dir = sample_dir and yaml_load = sample_yaml_load
            and env = no_env, OF r y]
  obtain m2 where m2: "readKibanaConfig sample_yaml_load both_files no_env sample_dir = Inr m2"
    and y2: "\<forall>kvs v. JSObject ?kvs = JSObject kvs \<and> map_of kvs ''elasticsearch.hosts'' = Some v
               \<and> (no_env ''ELASTICSEARCH_HOST'' = None \<or> no_env ''ELASTICSEARCH_HOST'' = Some [])
             \<longrightarrow> m2 ''elasticsearch.hosts'' = Some v"
    by (elim exE conjE) (erule that; assumption)
  from y2 hosts unset have b: "m2 ''elasticsearch.hosts'' = Some (JSString ''http://dev:9200'')"
    by simp
  from defaulted_keys_and_precedence
         [where fs = empty_production and dir = sample_dir and yaml_load = sample_yaml_load
            and env = no_env, OF r0 y0]
  obtain m3 where m3: "readKibanaConfig sample_yaml_load empty_production no_env sample_dir = Inr m3"
    and h3: "(\<forall>kvs. JSUndefined = JSObject kvs \<longrightarrow> map_of kvs ''elasticsearch.hosts'' = None)
             \<and> (no_env ''ELASTICSEARCH_HOST'' = None \<or> no_env ''ELASTICSEARCH_HOST'' = Some [])
             \<longrightarrow> m3 ''elasticsearch.hosts'' = Some (JSString ''http://localhost:9200'')"
    by (elim exE conjE) (erule that; assumption)
  from h3 unset have d: "m3 ''elasticsearch.hosts'' = Some (JSString ''http://localhost:9200'')"
    by simp
  from a b c d show ?thesis
    by (simp add: m1 m2 m3)
qed

text \<open>
  C6. When the parser throws on the content of the file that is read, the call ends with
  that exception and returns no mapping.
\<close>

theorem malformed_yaml_propagates:
  assumes "readFileSync fs (if existsSync fs (kibanaDevConfig dir) then kibanaDevConfig dir
                            else kibanaConfig dir) = Inr c"
      and "yaml_load c = Inl msg"
  shows "readKibanaConfig yaml_load fs env dir = Inl (YAMLException msg)
         \<and> (\<forall>m. readKibanaConfig yaml_load fs env dir \<noteq> Inr m)"
  using assms by (simp add: readKibanaConfig_def loadedKibanaConfig_def)

theorem malformed_yaml_propagates_witness:
  "readKibanaConfig sample_yaml_load broken_dev no_env sample_dir
     = Inl (YAMLException ''unexpected end of the stream within a flow collection'')"
proof -
  have r: "readFileSync broken_dev
             (if existsSync broken_dev (kibanaDevConfig sample_dir) then kibanaDevConfig sample_dir
              else kibanaConfig sample_dir) = Inr ''{''"
    by (simp add: readFileSync_def existsSync_def sample_defs)
  have y: "sample_yaml_load ''{'' = Inl ''unexpected end of the stream within a flow collection''"
    by (simp add: sample_yaml_load_def)
  from malformed_yaml_propagates
         [where fs = broken_dev and dir = sample_dir and yaml_load = sample_yaml_load, OF r y]
  show ?thesis by simp
qed

text \<open>
  C7. A key other than the three elasticsearch connection keys holds the value of the
  merge of the loaded document over the defaults, and the same value under any other
  environment.
\<close>

theorem env_overrides_touch_only_es_keys:
  assumes "readKibanaConfig yaml_load fs env dir = Inr m"
      and "k \<notin> {''elasticsearch.username'', ''elasticsearch.password'', ''elasticsearch.hosts''}"
  shows "\<exists>loaded m'. loadedKibanaConfig yaml_load fs dir = Inr loaded
           \<and> m k = (map_of defaults ++ own_props loaded) k
           \<and> readKibanaConfig yaml_load fs env' dir = Inr m' \<and> m' k = m k"
  using assms by (auto simp: readKibanaConfig_Inr map_add_def cli_lookup)

theorem env_overrides_touch_only_es_keys_witness:
  "projr (readKibanaConfig sample_yaml_load both_files no_env sample_dir) ''xpack.apm.indices.span''
     = projr (readKibanaConfig sample_yaml_load both_files host_env sample_dir) ''xpack.apm.indices.span''"
proof -
  have ok: "readKibanaConfig sample_yaml_load both_files host_env sample_dir
          = Inr (projr (readKibanaConfig sample_yaml_load both_files host_env sample_dir))"
    by (simp add: readKibanaConfig_def loadedKibanaConfig_def readFileSync_def existsSync_def
          sample_defs)
  have k: "''xpack.apm.indices.span''
             \<notin> {''elasticsearch.username'', ''elasticsearch.password'', ''elasticsearch.hosts''}"
    by simp
  from env_overrides_touch_only_es_keys [OF ok k, of no_env] show ?thesis by auto
qed

text \<open>An empty value is not picked: the variable might as well be unset.\<close>

lemma cliEsCredentials_empty_value:
  "cliEsCredentials (env(name \<mapsto> [])) = cliEsCredentials (env(name := None))"
  by (simp add: cliEsCredentials_def pickBy_def process_env_get_def)

text \<open>
  C8. Setting one of the three variables to the empty string gives the same outcome as
  leaving it unset.
\<close>

theorem empty_env_value_is_absent:
  "readKibanaConfig yaml_load fs (env(''ELASTICSEARCH_USERNAME'' \<mapsto> [])) dir
     = readKibanaConfig yaml_load fs (env(''ELASTICSEARCH_USERNAME'' := None)) dir
   \<and> readKibanaConfig yaml_load fs (env(''ELASTICSEARCH_PASSWORD'' \<mapsto> [])) dir
     = readKibanaConfig yaml_load fs (env(''ELASTICSEARCH_PASSWORD'' := None)) dir
   \<and> readKibanaConfig yaml_load fs (env(''ELASTICSEARCH_HOST'' \<mapsto> [])) dir
     = readKibanaConfig yaml_load fs (env(''ELASTICSEARCH_HOST'' := None)) dir"
  unfolding readKibanaConfig_def cliEsCredentials_empty_value by simp

theorem empty_env_value_is_absent_witness:
  "projr (readKibanaConfig sample_yaml_load both_files (host_env(''ELASTICSEARCH_HOST'' \<mapsto> []))
            sample_dir) ''elasticsearch.hosts'' = Some (JSString ''http://dev:9200'')"
proof -
  have "projr (readKibanaConfig sample_yaml_load both_files
                 (host_env(''ELASTICSEARCH_HOST'' := None)) sample_dir)
          ''elasticsearch.hosts'' = Some (JSString ''http://dev:9200'')"
    by (simp add: readKibanaConfig_def loadedKibanaConfig_def readFileSync_def existsSync_def
          sample_defs js_or_def map_add_def cli_lookup)
  with empty_env_value_is_absent [of sample_yaml_load both_files host_env sample_dir]
  show ?thesis by simp
qed



section \<open>Properties of the theme hook\<close>











section \<open>Properties of the chart panel\<close>

lemma actions_empty_iff:
  "actions p h s = [] \<longleftrightarrow>
     \<not> canEditVisualizationOnTheFly p h \<and> onEditVisualization h = None"
  by (auto simp: actions_def canSaveVisualization_def split: option.splits)

lemmas chart_sample_defs = visible_props_def hidden_props_def dataview_props_def esql_hooks_def
  closed_state_def flyout_state_def flyout_over_hidden_chart_def

text \<open>
  C3, as amended. The chart actions group is rendered exactly when the chart is visible
  and there is an action to show: the visualization can be customized, or
  \<^verbatim>\<open>useEditVisualization\<close> gave a callback. So it is never rendered when \<open>chartVisible\<close> is
  false.
\<close>

theorem chart_actions_rendered_iff:
  "chartActionsRendered (Chart p h s) \<longleftrightarrow>
     chartVisible p h \<and> (canCustomizeVisualization p h \<or> onEditVisualization h \<noteq> None)"
proof -
  have "length (actions p h s) > 0 \<longleftrightarrow> actions p h s \<noteq> []" by simp
  then show ?thesis
    by (auto simp: chartActionsRendered_def Chart_def actions_empty_iff
          canEditVisualizationOnTheFly_def)
qed

theorem chart_actions_rendered_iff_witness:
  "chartVisible visible_props esql_hooks
   \<and> chartActionsRendered (Chart visible_props esql_hooks closed_state)
   \<and> \<not> chartVisible hidden_props esql_hooks
   \<and> \<not> chartActionsRendered (Chart hidden_props esql_hooks closed_state)"
proof -
  have v: "chartVisible visible_props esql_hooks" "\<not> chartVisible hidden_props esql_hooks"
    by (simp_all add: chartVisible_def chart_sample_defs)
  have c: "canCustomizeVisualization visible_props esql_hooks"
    by (simp add: canCustomizeVisualization_def currentSuggestion_def chart_sample_defs)
  from v c chart_actions_rendered_iff [of visible_props esql_hooks closed_state]
    chart_actions_rendered_iff [of hidden_props esql_hooks closed_state]
  show ?thesis by blast
qed

text \<open>
  C3 as stated fails in the direction from visible to rendered: a visible chart in data
  view mode for which \<^verbatim>\<open>useEditVisualization\<close> gave no callback has an empty list of
  actions, and the guard \<^verbatim>\<open>actions.length > 0\<close> leaves the group out.
\<close>

theorem visible_chart_without_actions:
  "chartVisible dataview_props esql_hooks
   \<and> \<not> chartActionsRendered (Chart dataview_props esql_hooks closed_state)"
  by (simp add: chartActionsRendered_def Chart_def actions_def chartVisible_def
        canEditVisualizationOnTheFly_def canSaveVisualization_def canCustomizeVisualization_def
        chart_sample_defs)

subsection \<open>The flyout over the life of the component\<close>

lemma opening_button:
  assumes "b \<in> set (actions p h s)" and "isFlyoutVisible (handle (onClick b) s)"
      and "\<not> isFlyoutVisible s"
  shows "canEditVisualizationOnTheFly p h \<and> onClick b = SetIsFlyoutVisible True"
  using assms by (auto simp: actions_def split: if_splits option.splits)

lemma step_opens_flyout:
  assumes "step c c'" and "\<not> isFlyoutVisible (state c)" and "isFlyoutVisible (state c')"
  shows "canEditVisualizationOnTheFly (props c) (hooks c)
         \<and> c' = c\<lparr>state := (state c)\<lparr>isFlyoutVisible := True\<rparr>, effectsPending := True\<rparr>"
  using assms
proof (cases rule: step.cases)
  case effect
  with assms show ?thesis
    by (auto simp: closeFlyoutEffect_def Let_def split: if_splits)
next
  case (rerender p h)
  with assms show ?thesis by simp
next
  case (click panel bs b)
  from click(3,4) have "bs = actions (props c) (hooks c) (state c)"
    by (auto simp: Chart_def split: if_splits)
  with click assms opening_button [of b "props c" "hooks c" "state c"]
  show ?thesis by auto
next
  case (config_panel panel v)
  from config_panel(3,4) have "isFlyoutVisible (state c)"
    by (auto simp: Chart_def split: if_splits)
  with assms show ?thesis by simp
next
  case (save_modal_close panel)
  with assms show ?thesis by simp
qed

text \<open>
  After the effect of a render has run, the recorded dependencies are the current ones and
  the flyout is open only over a visible chart; while it is pending, the same holds unless
  the dependencies have changed.
\<close>

lemma step_invariant:
  assumes "step c c'"
      and "\<not> effectsPending c \<longrightarrow>
             effectDeps c = Some (chartVisible (props c) (hooks c), isFlyoutVisible (state c))"
      and "effectDeps c = Some (chartVisible (props c) (hooks c), isFlyoutVisible (state c))
             \<longrightarrow> isFlyoutVisible (state c) \<longrightarrow> chartVisible (props c) (hooks c)"
  shows "(\<not> effectsPending c' \<longrightarrow>
             effectDeps c' = Some (chartVisible (props c') (hooks c'), isFlyoutVisible (state c')))
       \<and> (effectDeps c' = Some (chartVisible (props c') (hooks c'), isFlyoutVisible (state c'))
             \<longrightarrow> isFlyoutVisible (state c') \<longrightarrow> chartVisible (props c') (hooks c'))"
  using assms(1)
proof (cases rule: step.cases)
  case effect
  with assms(2,3) show ?thesis
    by (auto simp: closeFlyoutEffect_def Let_def)
next
  case (rerender p h)
  with assms(2,3) show ?thesis by auto
next
  case (click panel bs b)
  have "isFlyoutVisible (handle (onClick b) (state c)) \<Longrightarrow> \<not> isFlyoutVisible (state c)
          \<Longrightarrow> chartVisible (props c) (hooks c)"
    using step_opens_flyout [OF assms(1)] click(1)
    by (simp add: canEditVisualizationOnTheFly_def)
  with click assms(2,3) show ?thesis by auto
next
  case (config_panel panel v)
  from config_panel(3,4) have "isFlyoutVisible (state c)"
    by (auto simp: Chart_def split: if_splits)
  with config_panel assms(2,3) show ?thesis by auto
next
  case (save_modal_close panel)
  with assms(2,3) show ?thesis by auto
qed

lemma reachable_invariant:
  assumes "reachable c"
  shows "(\<not> effectsPending c \<longrightarrow>
             effectDeps c = Some (chartVisible (props c) (hooks c), isFlyoutVisible (state c)))
       \<and> (effectDeps c = Some (chartVisible (props c) (hooks c), isFlyoutVisible (state c))
             \<longrightarrow> isFlyoutVisible (state c) \<longrightarrow> chartVisible (props c) (hooks c))"
  using assms
proof (induction rule: reachable.induct)
  case (mounted p h)
  show ?case by (simp add: mount_def)
next
  case (stepped c c')
  from step_invariant [OF stepped(2)] stepped(3) show ?case by blast
qed

text \<open>
  C10, as amended. In every reachable state whose effect has run, the flyout is open, in
  the state and in the returned tree, only if the chart is visible. A step opens the flyout only as the click on the edit button,
  which is there only when the visualization can be edited on the fly, so only over a
  visible chart. When a render is committed with the flyout open and the chart not
  visible, its effect closes the flyout, and the effect of the render that follows leaves
  the component at rest.
\<close>

theorem flyout_open_only_over_visible_chart:
  assumes "reachable c"
  shows "(\<not> effectsPending c \<longrightarrow> isFlyoutVisible (state c)
            \<longrightarrow> chartVisible (props c) (hooks c))
       \<and> (\<not> effectsPending c \<longrightarrow> flyoutRendered (Chart (props c) (hooks c) (state c))
            \<longrightarrow> chartVisible (props c) (hooks c))
       \<and> (\<forall>c'. step c c' \<and> \<not> isFlyoutVisible (state c) \<and> isFlyoutVisible (state c')
            \<longrightarrow> chartVisible (props c) (hooks c)
                \<and> canEditVisualizationOnTheFly (props c) (hooks c)
                \<and> c' = c\<lparr>state := (state c)\<lparr>isFlyoutVisible := True\<rparr>,
                         effectsPending := True\<rparr>)
       \<and> (effectsPending c \<and> isFlyoutVisible (state c) \<and> \<not> chartVisible (props c) (hooks c)
            \<longrightarrow> \<not> isFlyoutVisible (state (closeFlyoutEffect c))
                \<and> \<not> effectsPending (closeFlyoutEffect (closeFlyoutEffect c)))"
proof -
  note inv = reachable_invariant [OF assms]
  have 1: "\<not> effectsPending c \<longrightarrow> isFlyoutVisible (state c)
            \<longrightarrow> chartVisible (props c) (hooks c)"
    using inv by blast
  have 2: "\<forall>c'. step c c' \<and> \<not> isFlyoutVisible (state c) \<and> isFlyoutVisible (state c')
            \<longrightarrow> chartVisible (props c) (hooks c)
                \<and> canEditVisualizationOnTheFly (props c) (hooks c)
                \<and> c' = c\<lparr>state := (state c)\<lparr>isFlyoutVisible := True\<rparr>,
                         effectsPending := True\<rparr>"
    using step_opens_flyout [of c] by (auto simp: canEditVisualizationOnTheFly_def)
  have 3: "effectsPending c \<and> isFlyoutVisible (state c) \<and> \<not> chartVisible (props c) (hooks c)
            \<longrightarrow> \<not> isFlyoutVisible (state (closeFlyoutEffect c))
                \<and> \<not> effectsPending (closeFlyoutEffect (closeFlyoutEffect c))"
    using inv by (auto simp: closeFlyoutEffect_def Let_def)
  have "isFlyoutVisible (state c)" if "flyoutRendered (Chart (props c) (hooks c) (state c))"
    using that by (auto simp: flyoutRendered_def Chart_def split: if_splits)
  with 1 have 4: "\<not> effectsPending c
            \<longrightarrow> flyoutRendered (Chart (props c) (hooks c) (state c))
            \<longrightarrow> chartVisible (props c) (hooks c)"
    by blast
  from 1 4 2 3 show ?thesis by blast
qed

subsection \<open>The sample run\<close>

lemma visible_sample: "chartVisible visible_props esql_hooks"
  by (simp add: chartVisible_def chart_sample_defs)

lemma editable_sample: "canEditVisualizationOnTheFly visible_props esql_hooks"
  using visible_sample
  by (simp add: canEditVisualizationOnTheFly_def canCustomizeVisualization_def
        currentSuggestion_def chart_sample_defs)

lemma reachable_settled_chart: "reachable settled_chart"
proof -
  let ?c0 = "mount visible_props esql_hooks"
  have "closeFlyoutEffect ?c0 = settled_chart"
    using visible_sample
    by (simp add: closeFlyoutEffect_def mount_def closed_state_def settled_chart_def)
  moreover have "step ?c0 (closeFlyoutEffect ?c0)"
    by (rule step.effect) (simp add: mount_def)
  ultimately show ?thesis
    using reachable.stepped [OF reachable.mounted] by simp
qed

lemma step_edit_clicked: "step settled_chart edit_clicked"
proof -
  let ?b = "\<lparr>label = ''Edit visualization'', iconType = ''pencil'', isDisabled = False,
             dataTestSubj = ''unifiedHistogramEditFlyoutVisualization'',
             onClick = SetIsFlyoutVisible True\<rparr>"
  have acts: "actions visible_props esql_hooks closed_state = [?b]"
    using editable_sample
    by (simp add: actions_def canSaveVisualization_def closed_state_def visible_props_def)
  obtain panel where p: "Chart visible_props esql_hooks closed_state = ChartPanel panel"
    and pa: "chartActions panel = Some [?b]"
    using visible_sample acts by (simp add: Chart_def)
  have "step settled_chart
          (settled_chart\<lparr>state := handle (onClick ?b) (state settled_chart),
                          effectsPending := True\<rparr>)"
    by (rule step.click [where panel = panel and bs = "[?b]"])
       (simp_all add: p pa settled_chart_def)
  moreover have "settled_chart\<lparr>state := handle (onClick ?b) (state settled_chart),
                                effectsPending := True\<rparr> = edit_clicked"
    by (simp add: settled_chart_def edit_clicked_def closed_state_def flyout_state_def)
  ultimately show ?thesis by simp
qed

lemma reachable_flyout_over_visible_chart: "reachable flyout_over_visible_chart"
proof -
  have r2: "reachable edit_clicked"
    using reachable.stepped [OF reachable_settled_chart step_edit_clicked] .
  have "closeFlyoutEffect edit_clicked = flyout_over_visible_chart"
    using visible_sample
    by (simp add: closeFlyoutEffect_def edit_clicked_def flyout_over_visible_chart_def
          flyout_state_def)
  moreover have "step edit_clicked (closeFlyoutEffect edit_clicked)"
    by (rule step.effect) (simp add: edit_clicked_def)
  ultimately show ?thesis
    using reachable.stepped [OF r2] by simp
qed

lemma reachable_flyout_over_hidden_chart: "reachable flyout_over_hidden_chart"
proof -
  let ?c = flyout_over_visible_chart
  have "step ?c (?c\<lparr>props := hidden_props, hooks := esql_hooks, effectsPending := True\<rparr>)"
    by (rule step.rerender) (simp add: flyout_over_visible_chart_def)
  moreover have "?c\<lparr>props := hidden_props, hooks := esql_hooks, effectsPending := True\<rparr>
                  = flyout_over_hidden_chart"
    by (simp add: flyout_over_hidden_chart_def flyout_over_visible_chart_def)
  ultimately show ?thesis
    using reachable.stepped [OF reachable_flyout_over_visible_chart] by simp
qed

text \<open>
  C10 as stated fails in the render between the chart becoming invisible and the effect:
  once the flyout is open and the host hides the chart, the component is rendered with
  \<open>isFlyoutVisible\<close> still true, and the returned tree holds the flyout and no chart.
\<close>

theorem flyout_rendered_over_hidden_chart:
  "reachable flyout_over_hidden_chart
   \<and> isFlyoutVisible (state flyout_over_hidden_chart)
   \<and> \<not> chartVisible (props flyout_over_hidden_chart) (hooks flyout_over_hidden_chart)
   \<and> flyoutRendered (Chart (props flyout_over_hidden_chart) (hooks flyout_over_hidden_chart)
                        (state flyout_over_hidden_chart))"
proof -
  have "isFlyoutVisible (state flyout_over_hidden_chart)"
    by (simp add: flyout_over_hidden_chart_def flyout_state_def)
  moreover have "\<not> chartVisible (props flyout_over_hidden_chart) (hooks flyout_over_hidden_chart)"
    by (simp add: chartVisible_def chart_sample_defs)
  moreover have "flyoutRendered (Chart (props flyout_over_hidden_chart)
                   (hooks flyout_over_hidden_chart) (state flyout_over_hidden_chart))"
    by (simp add: flyoutRendered_def Chart_def chart_sample_defs)
  ultimately show ?thesis using reachable_flyout_over_hidden_chart by blast
qed

theorem flyout_open_only_over_visible_chart_witness:
  "\<not> effectsPending flyout_over_visible_chart
   \<and> isFlyoutVisible (state flyout_over_visible_chart)
   \<and> flyoutRendered (Chart (props flyout_over_visible_chart)
                         (hooks flyout_over_visible_chart) (state flyout_over_visible_chart))
   \<and> chartVisible (props flyout_over_visible_chart) (hooks flyout_over_visible_chart)
   \<and> step settled_chart edit_clicked
   \<and> canEditVisualizationOnTheFly (props settled_chart) (hooks settled_chart)
   \<and> effectsPending flyout_over_hidden_chart
   \<and> \<not> isFlyoutVisible (state (closeFlyoutEffect flyout_over_hidden_chart))
   \<and> \<not> effectsPending (closeFlyoutEffect (closeFlyoutEffect flyout_over_hidden_chart))"
proof -
  have a: "\<not> effectsPending flyout_over_visible_chart"
    "isFlyoutVisible (state flyout_over_visible_chart)"
    by (simp_all add: flyout_over_visible_chart_def flyout_state_def)
  with flyout_open_only_over_visible_chart [OF reachable_flyout_over_visible_chart]
  have b: "chartVisible (props flyout_over_visible_chart) (hooks flyout_over_visible_chart)"
    by blast
  have c: "\<not> isFlyoutVisible (state settled_chart)" "isFlyoutVisible (state edit_clicked)"
    by (simp_all add: settled_chart_def edit_clicked_def closed_state_def flyout_state_def)
  with flyout_open_only_over_visible_chart [OF reachable_settled_chart] step_edit_clicked
  have d: "canEditVisualizationOnTheFly (props settled_chart) (hooks settled_chart)"
    by blast
  have e: "effectsPending flyout_over_hidden_chart"
    "isFlyoutVisible (state flyout_over_hidden_chart)"
    "\<not> chartVisible (props flyout_over_hidden_chart) (hooks flyout_over_hidden_chart)"
    by (simp_all add: chartVisible_def chart_sample_defs)
  with flyout_open_only_over_visible_chart [OF reachable_flyout_over_hidden_chart]
  have f: "\<not> isFlyoutVisible (state (closeFlyoutEffect flyout_over_hidden_chart))
           \<and> \<not> effectsPending (closeFlyoutEffect (closeFlyoutEffect flyout_over_hidden_chart))"
    by blast
  have g: "flyoutRendered (Chart (props flyout_over_visible_chart)
             (hooks flyout_over_visible_chart) (state flyout_over_visible_chart))"
    by (simp add: flyoutRendered_def Chart_def chart_sample_defs flyout_over_visible_chart_def)
  from a g b step_edit_clicked d e(1) f show ?thesis by blast
qed

end
